theory Spec2Isabelle
  imports Main
begin

section \<open>Python values, exceptions and the HTTP library boundary\<close>

text \<open>
  The client in \<^verbatim>\<open>pydd/utils/dd_client.py\<close> builds parameter maps out of strings,
  booleans, lists and nested dictionaries and hands them to the \<^verbatim>\<open>requests\<close>
  library. Python values are a datatype; a dictionary is an association list in insertion
  order, with the string keys the client uses.
\<close>

datatype pyval =
    PNone
  | PBool bool
  | PInt int
  | PStr string
  | PList "pyval list"
  | PDict "(string \<times> pyval) list"

text \<open>Truth value testing, as \<^verbatim>\<open>if clear:\<close> and \<^verbatim>\<open>if measure_hist:\<close> do it.\<close>

fun truthy :: "pyval \<Rightarrow> bool" where
  "truthy PNone = False"
| "truthy (PBool b) = b"
| "truthy (PInt i) = (i \<noteq> 0)"
| "truthy (PStr s) = (s \<noteq> [])"
| "truthy (PList xs) = (xs \<noteq> [])"
| "truthy (PDict kvs) = (kvs \<noteq> [])"

text \<open>
  Item assignment \<^verbatim>\<open>d[k] = v\<close>: an existing key keeps its position, a new key goes
  to the end.
\<close>

fun setitem :: "(string \<times> pyval) list \<Rightarrow> string \<Rightarrow> pyval \<Rightarrow> (string \<times> pyval) list" where
  "setitem [] k v = [(k, v)]"
| "setitem ((k', v') # kvs) k v = (if k' = k then (k, v) # kvs else (k', v') # setitem kvs k v)"

text \<open>\<^verbatim>\<open>str(n)\<close> and \<^verbatim>\<open>'%d' % n\<close> for an integer: decimal digits, a minus sign first.\<close>

definition digit :: "nat \<Rightarrow> char" where
  "digit n = ''0123456789'' ! (n mod 10)"

function str_nat :: "nat \<Rightarrow> string" where
  "str_nat n = (if n < 10 then [digit n] else str_nat (n div 10) @ [digit n])"
  by pat_completeness auto
termination
  by (relation "measure (\<lambda>n. n)") auto

declare str_nat.simps [simp del]

definition str_int :: "int \<Rightarrow> string" where
  "str_int i = (if i < 0 then CHR ''-'' # str_nat (nat (- i)) else str_nat (nat i))"

text \<open>
  What the client passes to \<^verbatim>\<open>requests.get/put/post/delete\<close> is a request: the verb
  and the keyword arguments of \<^verbatim>\<open>requests.request\<close>. \<open>rq_params\<close> is the library's
  \<^verbatim>\<open>params=\<close> (sent in the URL query string), \<open>rq_data\<close> and \<open>rq_json\<close> are its
  \<^verbatim>\<open>data=\<close> and \<^verbatim>\<open>json=\<close> (sent as the request body); an argument that is not
  given is \<open>PNone\<close>, the library's default.
\<close>

datatype http_verb = GET | PUT | POST | DELETE

record request =
  rq_verb :: http_verb
  rq_url :: string
  rq_params :: pyval
  rq_data :: pyval
  rq_json :: pyval
  rq_timeout :: int

record response =
  status_code :: int
  body_text :: string

datatype exn =
    KeyError string
  | AssertionError
  | RequestException string
  | HTTPError response
  | JSONDecodeError

text \<open>
  The remote side is a parameter: \<open>network\<close> answers a request, given the requests
  issued before it, with a response or with the exception the transport raises
  (connection refused, timeout); \<open>loads\<close> is the JSON decoder behind
  \<^verbatim>\<open>Response.json()\<close>, \<open>None\<close> where the text is not a JSON document.
  The state of the world is the list of requests issued so far, oldest first.
\<close>

record env =
  network :: "request list \<Rightarrow> request \<Rightarrow> exn + response"
  loads :: "string \<rightharpoonup> pyval"

type_synonym 'a io = "request list \<Rightarrow> (exn + 'a) \<times> request list"

definition requests_request :: "env \<Rightarrow> http_verb \<Rightarrow> string \<Rightarrow> pyval \<Rightarrow> int \<Rightarrow> response io" where
  \<comment> \<open>\<^verbatim>\<open>requests.<verb>(url=url, params=params, timeout=timeout)\<close>\<close>
  "requests_request e v url params timeout w =
     (let rq = \<lparr>rq_verb = v, rq_url = url, rq_params = params, rq_data = PNone,
                rq_json = PNone, rq_timeout = timeout\<rparr>
      in (network e w rq, w @ [rq]))"

definition raise_for_status :: "response \<Rightarrow> exn option" where
  \<comment> \<open>\<^verbatim>\<open>Response.raise_for_status()\<close>: HTTPError for a 4xx or 5xx status, carrying the response\<close>
  "raise_for_status r =
     (if 400 \<le> status_code r \<and> status_code r < 600 then Some (HTTPError r) else None)"

definition json :: "env \<Rightarrow> response \<Rightarrow> exn + pyval" where
  \<comment> \<open>\<^verbatim>\<open>Response.json()\<close>\<close>
  "json e r = (case loads e (body_text r) of None \<Rightarrow> Inl JSONDecodeError | Some v \<Rightarrow> Inr v)"

section \<open>The client\<close>

definition DD_TIMEOUT :: int where
  "DD_TIMEOUT = 86400"

definition API_METHODS_URL :: "(string \<times> (string \<times> string) list) list" where
  "API_METHODS_URL =
     [(''0.1'', [(''info'', ''/info''),
                 (''services'', ''/services''),
                 (''train'', ''/train''),
                 (''predict'', ''/predict'')])]"

definition getitem :: "(string \<times> 'v) list \<Rightarrow> string \<Rightarrow> exn + 'v" where
  \<comment> \<open>subscription \<^verbatim>\<open>d[k]\<close> of a dictionary\<close>
  "getitem d k = (case map_of d k of None \<Rightarrow> Inl (KeyError k) | Some v \<Rightarrow> Inr v)"

definition RETURN_JSON :: int where "RETURN_JSON = 0"
definition RETURN_TEXT :: int where "RETURN_TEXT = 1"
definition RETURN_NONE :: int where "RETURN_NONE = 2"

definition HTTP :: int where "HTTP = 0"
definition HTTPS :: int where "HTTPS = 1"

record DD =
  DD_apiversion :: string
  DD_urls :: "(string \<times> string) list"
  DD_host :: string
  DD_port :: int
  DD_proto :: int
  DD_returntype :: int
  DD_ddurl :: string

text \<open>
  A parameter with a default value is an optional argument: \<open>None\<close> is the call that
  leaves it out.
\<close>

definition arg_or :: "'a \<Rightarrow> 'a option \<Rightarrow> 'a" where
  "arg_or d a = (case a of None \<Rightarrow> d | Some v \<Rightarrow> v)"

definition DD_init :: "string option \<Rightarrow> int option \<Rightarrow> int option \<Rightarrow> string option \<Rightarrow> DD io" where
  "DD_init host_arg port_arg proto_arg apiversion_arg w =
     (let host = arg_or ''localhost'' host_arg;
          port = arg_or 8080 port_arg;
          proto = arg_or 0 proto_arg;
          apiversion = arg_or ''0.1'' apiversion_arg
      in case getitem API_METHODS_URL apiversion of
           Inl e \<Rightarrow> (Inl e, w)
         | Inr urls \<Rightarrow>
             (Inr \<lparr>DD_apiversion = apiversion,
                   DD_urls = urls,
                   DD_host = host,
                   DD_port = port,
                   DD_proto = proto,
                   DD_returntype = RETURN_JSON,
                   DD_ddurl = (if proto = HTTP
                               then ''http://'' @ host @ '':'' @ str_int port
                               else ''https://'' @ host @ '':'' @ str_int port)\<rparr>, w))"

definition set_return_format :: "DD \<Rightarrow> int \<Rightarrow> request list \<Rightarrow> (exn + pyval) \<times> DD \<times> request list" where
  \<comment> \<open>the method mutates \<^verbatim>\<open>self\<close>: the client after the call is returned with the result\<close>
  "set_return_format self f w =
     (if f = RETURN_JSON \<or> f = RETURN_TEXT \<or> f = RETURN_NONE
      then (Inr PNone, self\<lparr>DD_returntype := f\<rparr>, w)
      else (Inl AssertionError, self, w))"

definition return_data :: "env \<Rightarrow> DD \<Rightarrow> response \<Rightarrow> exn + pyval" where
  "return_data e self r =
     (if DD_returntype self = RETURN_JSON then json e r
      else if DD_returntype self = RETURN_TEXT then Inr (PStr (body_text r))
      else Inr PNone)"

definition get :: "env \<Rightarrow> DD \<Rightarrow> string \<Rightarrow> pyval option \<Rightarrow> pyval io" where
  "get e self method params w =
     (let url = DD_ddurl self @ method in
      case requests_request e GET url (arg_or PNone params) DD_TIMEOUT w of
        (Inl x, w') \<Rightarrow> (Inl x, w')
      | (Inr r, w') \<Rightarrow>
          (case raise_for_status r of
             Some x \<Rightarrow> (Inl x, w')
           | None \<Rightarrow> (return_data e self r, w')))"

definition put :: "env \<Rightarrow> DD \<Rightarrow> string \<Rightarrow> pyval \<Rightarrow> pyval io" where
  "put e self method params w =
     (let url = DD_ddurl self @ method in
      case requests_request e PUT url params DD_TIMEOUT w of
        (Inl x, w') \<Rightarrow> (Inl x, w')
      | (Inr r, w') \<Rightarrow>
          (case raise_for_status r of
             Some x \<Rightarrow> (Inl x, w')
           | None \<Rightarrow> (return_data e self r, w')))"

definition post :: "env \<Rightarrow> DD \<Rightarrow> string \<Rightarrow> pyval \<Rightarrow> pyval io" where
  "post e self method params w =
     (let url = DD_ddurl self @ method in
      case requests_request e POST url params DD_TIMEOUT w of
        (Inl x, w') \<Rightarrow> (Inl x, w')
      | (Inr r, w') \<Rightarrow>
          (case raise_for_status r of
             Some x \<Rightarrow> (Inl x, w')
           | None \<Rightarrow> (return_data e self r, w')))"

definition delete :: "env \<Rightarrow> DD \<Rightarrow> string \<Rightarrow> pyval \<Rightarrow> pyval io" where
  "delete e self method params w =
     (let url = DD_ddurl self @ method in
      case requests_request e DELETE url params DD_TIMEOUT w of
        (Inl x, w') \<Rightarrow> (Inl x, w')
      | (Inr r, w') \<Rightarrow>
          (case raise_for_status r of
             Some x \<Rightarrow> (Inl x, w')
           | None \<Rightarrow> (return_data e self r, w')))"

subsection \<open>API methods\<close>

definition info :: "env \<Rightarrow> DD \<Rightarrow> pyval io" where
  "info e self w =
     (case getitem (DD_urls self) ''info'' of
        Inl x \<Rightarrow> (Inl x, w)
      | Inr u \<Rightarrow> get e self u None w)"

definition put_service ::
  "env \<Rightarrow> DD \<Rightarrow> string \<Rightarrow> pyval \<Rightarrow> pyval \<Rightarrow> pyval \<Rightarrow> pyval \<Rightarrow> pyval \<Rightarrow> pyval \<Rightarrow> pyval option \<Rightarrow> pyval io" where
  "put_service e self sname model description mllib parameters_input parameters_mllib
       parameters_output mltype_arg w =
     (let mltype = arg_or (PStr ''supervised'') mltype_arg;
          params = PDict [(''description'', description),
                          (''mllib'', mllib),
                          (''type'', mltype),
                          (''parameters'', PDict [(''input'', parameters_input),
                                                  (''mllib'', parameters_mllib),
                                                  (''output'', parameters_output)]),
                          (''model'', model)]
      in case getitem (DD_urls self) ''services'' of
           Inl x \<Rightarrow> (Inl x, w)
         | Inr u \<Rightarrow> put e self (u @ ''/'' @ sname) params w)"

definition get_service :: "env \<Rightarrow> DD \<Rightarrow> string \<Rightarrow> pyval io" where
  "get_service e self sname w =
     (case getitem (DD_urls self) ''services'' of
        Inl x \<Rightarrow> (Inl x, w)
      | Inr u \<Rightarrow> get e self (u @ ''/'' @ sname) None w)"

definition delete_service :: "env \<Rightarrow> DD \<Rightarrow> string \<Rightarrow> pyval option \<Rightarrow> pyval io" where
  "delete_service e self sname clear_arg w =
     (let clear = arg_or PNone clear_arg;
          params = (if truthy clear then PDict [(''clear'', clear)] else PNone)
      in case getitem (DD_urls self) ''services'' of
           Inl x \<Rightarrow> (Inl x, w)
         | Inr u \<Rightarrow> delete e self (u @ ''/'' @ sname) params w)"

definition post_train ::
  "env \<Rightarrow> DD \<Rightarrow> string \<Rightarrow> pyval \<Rightarrow> pyval \<Rightarrow> pyval \<Rightarrow> pyval \<Rightarrow> pyval option \<Rightarrow> pyval io" where
  "post_train e self sname data parameters_input parameters_mllib parameters_output async_arg w =
     (let async = arg_or (PBool True) async_arg;
          params = PDict [(''service'', PStr sname),
                          (''async'', async),
                          (''parameters'', PDict [(''input'', parameters_input),
                                                  (''mllib'', parameters_mllib),
                                                  (''output'', parameters_output)]),
                          (''data'', data)]
      in case getitem (DD_urls self) ''train'' of
           Inl x \<Rightarrow> (Inl x, w)
         | Inr u \<Rightarrow> post e self u params w)"

definition get_train ::
  "env \<Rightarrow> DD \<Rightarrow> string \<Rightarrow> int option \<Rightarrow> int option \<Rightarrow> pyval option \<Rightarrow> pyval io" where
  "get_train e self sname job_arg timeout_arg measure_hist_arg w =
     (let job = arg_or 1 job_arg;
          timeout = arg_or 0 timeout_arg;
          measure_hist = arg_or (PBool False) measure_hist_arg;
          params = [(''service'', PStr sname),
                    (''job'', PStr (str_int job)),
                    (''timeout'', PStr (str_int timeout))];
          params = (if truthy measure_hist
                    then setitem params ''parameters.output.measure_hist'' measure_hist
                    else params)
      in case getitem (DD_urls self) ''train'' of
           Inl x \<Rightarrow> (Inl x, w)
         | Inr u \<Rightarrow> get e self u (Some (PDict params)) w)"

definition delete_train :: "env \<Rightarrow> DD \<Rightarrow> string \<Rightarrow> int option \<Rightarrow> pyval io" where
  "delete_train e self sname job_arg w =
     (let job = arg_or 1 job_arg;
          params = PDict [(''service'', PStr sname),
                          (''job'', PStr (str_int job))]
      in case getitem (DD_urls self) ''train'' of
           Inl x \<Rightarrow> (Inl x, w)
         | Inr u \<Rightarrow> delete e self u params w)"

definition post_predict ::
  "env \<Rightarrow> DD \<Rightarrow> string \<Rightarrow> pyval \<Rightarrow> pyval \<Rightarrow> pyval \<Rightarrow> pyval \<Rightarrow> pyval io" where
  "post_predict e self sname data parameters_input parameters_mllib parameters_output w =
     (let params = PDict [(''service'', PStr sname),
                          (''parameters'', PDict [(''input'', parameters_input),
                                                  (''mllib'', parameters_mllib),
                                                  (''output'', parameters_output)]),
                          (''data'', data)]
      in case getitem (DD_urls self) ''predict'' of
           Inl x \<Rightarrow> (Inl x, w)
         | Inr u \<Rightarrow> post e self u params w)"

subsection \<open>Sequences of method calls on one client\<close>

text \<open>
  The public methods of the class, as the calls a program can make on a constructed
  client. Only \<open>set_return_format\<close> assigns to a field; every other method reads the
  client and leaves it as it was. A caller may catch an exception and go on, so a
  sequence of calls continues after a call that raised.
\<close>

datatype call =
    Set_return_format int
  | Get string "pyval option"
  | Put string pyval
  | Post string pyval
  | Delete string pyval
  | Info
  | Put_service string pyval pyval pyval pyval pyval pyval "pyval option"
  | Get_service string
  | Delete_service string "pyval option"
  | Post_train string pyval pyval pyval pyval "pyval option"
  | Get_train string "int option" "int option" "pyval option"
  | Delete_train string "int option"
  | Post_predict string pyval pyval pyval pyval

definition keep :: "DD \<Rightarrow> (exn + pyval) \<times> request list \<Rightarrow> (exn + pyval) \<times> DD \<times> request list" where
  "keep self res = (fst res, self, snd res)"

fun invoke :: "env \<Rightarrow> call \<Rightarrow> DD \<Rightarrow> request list \<Rightarrow> (exn + pyval) \<times> DD \<times> request list" where
  "invoke e (Set_return_format f) self w = set_return_format self f w"
| "invoke e (Get method params) self w = keep self (get e self method params w)"
| "invoke e (Put method params) self w = keep self (put e self method params w)"
| "invoke e (Post method params) self w = keep self (post e self method params w)"
| "invoke e (Delete method params) self w = keep self (delete e self method params w)"
| "invoke e Info self w = keep self (info e self w)"
| "invoke e (Put_service sname model description mllib pin pml pout mltype) self w =
     keep self (put_service e self sname model description mllib pin pml pout mltype w)"
| "invoke e (Get_service sname) self w = keep self (get_service e self sname w)"
| "invoke e (Delete_service sname clear) self w = keep self (delete_service e self sname clear w)"
| "invoke e (Post_train sname data pin pml pout async) self w =
     keep self (post_train e self sname data pin pml pout async w)"
| "invoke e (Get_train sname job timeout measure_hist) self w =
     keep self (get_train e self sname job timeout measure_hist w)"
| "invoke e (Delete_train sname job) self w = keep self (delete_train e self sname job w)"
| "invoke e (Post_predict sname data pin pml pout) self w =
     keep self (post_predict e self sname data pin pml pout w)"

fun run :: "env \<Rightarrow> call list \<Rightarrow> DD \<Rightarrow> request list \<Rightarrow> DD \<times> request list" where
  "run e [] self w = (self, w)"
| "run e (c # cs) self w = (case invoke e c self w of (res, self', w') \<Rightarrow> run e cs self' w')"

subsection \<open>Notation for statements, and a mock server\<close>

text \<open>
  \<open>sent v url params\<close> is the request that \<^verbatim>\<open>requests.<v>(url=url, params=params,
  timeout=DD_TIMEOUT)\<close> issues; \<open>verb_call\<close> selects one of the four verb methods.
  Both are abbreviations: a statement that uses them is a statement about the record and
  about \<open>get\<close>, \<open>put\<close>, \<open>post\<close> and \<open>delete\<close> themselves.
\<close>

abbreviation sent :: "http_verb \<Rightarrow> string \<Rightarrow> pyval \<Rightarrow> request" where
  "sent v url params \<equiv>
     \<lparr>rq_verb = v, rq_url = url, rq_params = params, rq_data = PNone, rq_json = PNone,
      rq_timeout = 86400\<rparr>"

abbreviation verb_call :: "env \<Rightarrow> DD \<Rightarrow> http_verb \<Rightarrow> string \<Rightarrow> pyval \<Rightarrow> pyval io" where
  "verb_call e self v method params \<equiv>
     (case v of
        GET \<Rightarrow> get e self method (Some params)
      | PUT \<Rightarrow> put e self method params
      | POST \<Rightarrow> post e self method params
      | DELETE \<Rightarrow> delete e self method params)"

text \<open>
  A server that answers every request with the same status code and body, with a decoder
  that knows the empty JSON object; and the client that \<^verbatim>\<open>DD()\<close> constructs.
\<close>

definition mock_server :: "int \<Rightarrow> string \<Rightarrow> env" where
  "mock_server code body =
     \<lparr>network = (\<lambda>w rq. Inr \<lparr>status_code = code, body_text = body\<rparr>),
      loads = [''{}'' \<mapsto> PDict []]\<rparr>"

definition default_dd :: DD where
  "default_dd =
     \<lparr>DD_apiversion = ''0.1'',
      DD_urls = [(''info'', ''/info''), (''services'', ''/services''),
                 (''train'', ''/train''), (''predict'', ''/predict'')],
      DD_host = ''localhost'', DD_port = 8080, DD_proto = 0,
      DD_returntype = 0, DD_ddurl = ''http://localhost:8080''\<rparr>"

section \<open>Basic facts\<close>

lemma str_int_8080: "str_int 8080 = ''8080''"
  by (simp add: str_int_def str_nat.simps digit_def)


lemma getitem_table:
  "getitem API_METHODS_URL a =
     (if a = ''0.1''
      then Inr [(''info'', ''/info''), (''services'', ''/services''),
                (''train'', ''/train''), (''predict'', ''/predict'')]
      else Inl (KeyError a))"
  by (simp add: getitem_def API_METHODS_URL_def)

lemma DD_init_default: "DD_init None None None None w = (Inr default_dd, w)"
  by (simp add: DD_init_def arg_or_def getitem_table default_dd_def RETURN_JSON_def HTTP_def
      str_int_8080)

lemma DD_init_Inr:
  assumes "DD_init host port proto apiversion w = (Inr self, w')"
  shows "DD_urls self = [(''info'', ''/info''), (''services'', ''/services''),
                         (''train'', ''/train''), (''predict'', ''/predict'')]"
    and "DD_returntype self = RETURN_JSON"
    and "w' = w"
  using assms by (auto simp: DD_init_def Let_def getitem_table split: if_splits)

lemma DD_init_urls:
  assumes "DD_init host port proto apiversion w = (Inr self, w')"
  shows "getitem (DD_urls self) ''info'' = Inr ''/info''"
    and "getitem (DD_urls self) ''services'' = Inr ''/services''"
    and "getitem (DD_urls self) ''train'' = Inr ''/train''"
    and "getitem (DD_urls self) ''predict'' = Inr ''/predict''"
  by (simp_all add: DD_init_Inr(1)[OF assms] getitem_def)

lemma get_eq:
  "get e self method params w =
     (case network e w (sent GET (DD_ddurl self @ method) (arg_or PNone params)) of
        Inl x \<Rightarrow> Inl x
      | Inr r \<Rightarrow> (case raise_for_status r of Some x \<Rightarrow> Inl x | None \<Rightarrow> return_data e self r),
      w @ [sent GET (DD_ddurl self @ method) (arg_or PNone params)])"
  by (simp add: get_def requests_request_def DD_TIMEOUT_def Let_def split: sum.splits option.splits)

lemma put_eq:
  "put e self method params w =
     (case network e w (sent PUT (DD_ddurl self @ method) params) of
        Inl x \<Rightarrow> Inl x
      | Inr r \<Rightarrow> (case raise_for_status r of Some x \<Rightarrow> Inl x | None \<Rightarrow> return_data e self r),
      w @ [sent PUT (DD_ddurl self @ method) params])"
  by (simp add: put_def requests_request_def DD_TIMEOUT_def Let_def split: sum.splits option.splits)

lemma post_eq:
  "post e self method params w =
     (case network e w (sent POST (DD_ddurl self @ method) params) of
        Inl x \<Rightarrow> Inl x
      | Inr r \<Rightarrow> (case raise_for_status r of Some x \<Rightarrow> Inl x | None \<Rightarrow> return_data e self r),
      w @ [sent POST (DD_ddurl self @ method) params])"
  by (simp add: post_def requests_request_def DD_TIMEOUT_def Let_def split: sum.splits option.splits)

lemma delete_eq:
  "delete e self method params w =
     (case network e w (sent DELETE (DD_ddurl self @ method) params) of
        Inl x \<Rightarrow> Inl x
      | Inr r \<Rightarrow> (case raise_for_status r of Some x \<Rightarrow> Inl x | None \<Rightarrow> return_data e self r),
      w @ [sent DELETE (DD_ddurl self @ method) params])"
  by (simp add: delete_def requests_request_def DD_TIMEOUT_def Let_def split: sum.splits option.splits)

lemmas verb_eqs = get_eq put_eq post_eq delete_eq

lemma mock_network: "network (mock_server code body) w rq = Inr \<lparr>status_code = code, body_text = body\<rparr>"
  by (simp add: mock_server_def)

lemma mock_loads: "loads (mock_server code body) ''{}'' = Some (PDict [])"
  by (simp add: mock_server_def)

lemma invoke_other_keeps_self:
  "(\<forall>f. c \<noteq> Set_return_format f) \<Longrightarrow> fst (snd (invoke e c self w)) = self"
  by (cases c) (simp_all add: keep_def)

lemma set_return_format_returntype:
  "DD_returntype self \<in> {RETURN_JSON, RETURN_TEXT, RETURN_NONE} \<Longrightarrow>
   DD_returntype (fst (snd (set_return_format self f w))) \<in> {RETURN_JSON, RETURN_TEXT, RETURN_NONE}"
  by (auto simp: set_return_format_def)

lemma invoke_returntype:
  assumes "DD_returntype self \<in> {RETURN_JSON, RETURN_TEXT, RETURN_NONE}"
  shows "DD_returntype (fst (snd (invoke e c self w))) \<in> {RETURN_JSON, RETURN_TEXT, RETURN_NONE}"
proof (cases "\<exists>f. c = Set_return_format f")
  case True
  then obtain f where "c = Set_return_format f" ..
  with assms show ?thesis
    using set_return_format_returntype [of self f w] by simp
next
  case False
  then have "fst (snd (invoke e c self w)) = self"
    by (simp add: invoke_other_keeps_self)
  with assms show ?thesis by simp
qed

lemma run_returntype:
  "DD_returntype self \<in> {RETURN_JSON, RETURN_TEXT, RETURN_NONE} \<Longrightarrow>
   DD_returntype (fst (run e cs self w)) \<in> {RETURN_JSON, RETURN_TEXT, RETURN_NONE}"
proof (induction cs arbitrary: self w)
  case Nil
  then show ?case by simp
next
  case (Cons c cs)
  obtain res self' w' where step: "invoke e c self w = (res, self', w')"
    by (cases "invoke e c self w") auto
  have "DD_returntype self' \<in> {RETURN_JSON, RETURN_TEXT, RETURN_NONE}"
    using invoke_returntype [OF Cons.prems, of e c w] step by simp
  then have "DD_returntype (fst (run e cs self' w')) \<in> {RETURN_JSON, RETURN_TEXT, RETURN_NONE}"
    by (rule Cons.IH)
  with step show ?case by simp
qed

section \<open>Response formatting\<close>

text \<open>
  C1. Whenever one of the four verb methods receives a response that
  \<open>raise_for_status\<close> lets through (a status outside 400..599), the value it returns
  is fixed by the return type of the client: with \<open>RETURN_JSON\<close> the body text decoded
  by the JSON decoder (the decoder's exception where the body is not JSON), with
  \<open>RETURN_TEXT\<close> the body text as a string, with \<open>RETURN_NONE\<close> the value None.
  A client that the constructor has just returned has the return type \<open>RETURN_JSON\<close>.
\<close>

theorem return_value_by_mode:
  "(network e w (sent v (DD_ddurl self @ path) params) = Inr r
     \<and> \<not> (400 \<le> status_code r \<and> status_code r < 600)
    \<longrightarrow> (DD_returntype self = RETURN_JSON \<longrightarrow>
           fst (verb_call e self v path params w) =
             (case loads e (body_text r) of None \<Rightarrow> Inl JSONDecodeError | Some x \<Rightarrow> Inr x))
      \<and> (DD_returntype self = RETURN_TEXT \<longrightarrow>
           fst (verb_call e self v path params w) = Inr (PStr (body_text r)))
      \<and> (DD_returntype self = RETURN_NONE \<longrightarrow>
           fst (verb_call e self v path params w) = Inr PNone))
   \<and> (DD_init host port proto apiversion w0 = (Inr dd, w1) \<longrightarrow> DD_returntype dd = RETURN_JSON)"
  by (cases v)
     (auto simp: verb_eqs arg_or_def raise_for_status_def return_data_def json_def
        RETURN_JSON_def RETURN_TEXT_def RETURN_NONE_def dest: DD_init_Inr(2))

theorem return_value_by_mode_witness:
  "network (mock_server 200 ''{}'') [] (sent GET (DD_ddurl default_dd @ ''/info'') PNone)
     = Inr \<lparr>status_code = 200, body_text = ''{}''\<rparr>
   \<and> DD_returntype default_dd = RETURN_JSON
   \<and> DD_init None None None None [] = (Inr default_dd, [])
   \<and> fst (get (mock_server 200 ''{}'') default_dd ''/info'' (Some PNone) []) = Inr (PDict [])"
  using return_value_by_mode [where e = "mock_server 200 ''{}''" and w = "[]" and v = GET and self = default_dd
      and path = "''/info''" and params = PNone
      and r = "\<lparr>status_code = 200, body_text = ''{}''\<rparr>"
      and host = None and port = None and proto = None and apiversion = None and ?w0.0 = "[]"
      and dd = default_dd and ?w1.0 = "[]"]
  by (simp add: mock_network mock_loads DD_init_default)

section \<open>Verb methods: what is sent\<close>

text \<open>
  C2. The claim, that \<open>put\<close> and \<open>post\<close> carry the parameter map as the request body
  and not as URL query parameters, does not hold of the code. Both methods call the HTTP
  library with \<^verbatim>\<open>params=params\<close>, as \<open>get\<close> does: the map becomes the URL query
  parameters, and \<^verbatim>\<open>data=\<close> and \<^verbatim>\<open>json=\<close>, the body, are never given. On the
  client that \<^verbatim>\<open>DD()\<close> constructs,
  \<^verbatim>\<open>put("/services/digits", {"mllib": "caffe", "parameters": {"input": {"connector": "svm"}}})\<close>
  and the same call of \<open>post\<close> on \<^verbatim>\<open>/train\<close> issue the requests below. The maps
  that \<open>put_service\<close>, \<open>post_train\<close> and \<open>post_predict\<close> build for these two
  methods are nested, which a query string cannot carry; \<open>get_train\<close>, whose map is
  meant for the query string, writes its nested option as one dotted key.
\<close>

theorem put_post_send_no_body:
  "snd (put (mock_server 200 ''{}'') default_dd ''/services/digits''
          (PDict [(''mllib'', PStr ''caffe''),
                  (''parameters'', PDict [(''input'', PDict [(''connector'', PStr ''svm'')])])])
          [])
     = [\<lparr>rq_verb = PUT, rq_url = ''http://localhost:8080/services/digits'',
         rq_params = PDict [(''mllib'', PStr ''caffe''),
                            (''parameters'',
                             PDict [(''input'', PDict [(''connector'', PStr ''svm'')])])],
         rq_data = PNone, rq_json = PNone, rq_timeout = 86400\<rparr>]
   \<and> snd (post (mock_server 200 ''{}'') default_dd ''/train''
          (PDict [(''mllib'', PStr ''caffe''),
                  (''parameters'', PDict [(''input'', PDict [(''connector'', PStr ''svm'')])])])
          [])
     = [\<lparr>rq_verb = POST, rq_url = ''http://localhost:8080/train'',
         rq_params = PDict [(''mllib'', PStr ''caffe''),
                            (''parameters'',
                             PDict [(''input'', PDict [(''connector'', PStr ''svm'')])])],
         rq_data = PNone, rq_json = PNone, rq_timeout = 86400\<rparr>]"
  by (simp add: put_eq post_eq default_dd_def)

section \<open>Construction\<close>

text \<open>
  C3. Constructing a client with an api version that has no entry in
  \<open>API_METHODS_URL\<close> raises KeyError for that version and issues no request; with a
  version that has an entry, and with the default version, which is \<^verbatim>\<open>"0.1"\<close> and
  has one, construction returns a client.
\<close>

theorem init_unknown_apiversion:
  "(apiversion \<notin> fst ` set API_METHODS_URL \<longrightarrow>
       DD_init host port proto (Some apiversion) w = (Inl (KeyError apiversion), w))
   \<and> (apiversion \<in> fst ` set API_METHODS_URL \<longrightarrow>
       (\<exists>dd. DD_init host port proto (Some apiversion) w = (Inr dd, w)))
   \<and> (\<exists>dd. DD_init host port proto None w = (Inr dd, w))
   \<and> ''0.1'' \<in> fst ` set API_METHODS_URL"
  by (simp add: DD_init_def Let_def arg_or_def getitem_table) (simp add: API_METHODS_URL_def)

theorem init_unknown_apiversion_witness:
  "''0.2'' \<notin> fst ` set API_METHODS_URL
   \<and> DD_init None None None (Some ''0.2'') [] = (Inl (KeyError ''0.2''), [])
   \<and> ''0.1'' \<in> fst ` set API_METHODS_URL
   \<and> (\<exists>dd. DD_init None None None (Some ''0.1'') [] = (Inr dd, []))"
  using init_unknown_apiversion [where apiversion = "''0.2''" and host = None and port = None
      and proto = None and w = "[]"]
    init_unknown_apiversion [where apiversion = "''0.1''" and host = None and port = None
      and proto = None and w = "[]"]
  by (simp add: API_METHODS_URL_def)

text \<open>
  C10. The constructor does not check the protocol selector. With the default or the
  tabled api version it returns a client for every integer \<open>proto\<close>; the base URL it
  stores is \<^verbatim>\<open>http://host:port\<close> when \<open>proto\<close> is 0 (the default) and
  \<^verbatim>\<open>https://host:port\<close> for every other value, 2 and -1 included. The host
  defaults to \<^verbatim>\<open>localhost\<close> and the port, printed in decimal, to 8080.
\<close>

theorem init_proto_unvalidated:
  "(apiversion = None \<or> apiversion = Some ''0.1'') \<longrightarrow>
     (\<exists>dd. DD_init host port proto apiversion w = (Inr dd, w)
        \<and> DD_proto dd = (case proto of None \<Rightarrow> 0 | Some p \<Rightarrow> p)
        \<and> DD_ddurl dd =
            (if (case proto of None \<Rightarrow> 0 | Some p \<Rightarrow> p) = 0 then ''http://'' else ''https://'')
            @ (case host of None \<Rightarrow> ''localhost'' | Some h \<Rightarrow> h)
            @ '':'' @ str_int (case port of None \<Rightarrow> 8080 | Some n \<Rightarrow> n))"
  by (auto simp: DD_init_def Let_def arg_or_def getitem_table HTTP_def split: option.splits)

theorem init_proto_unvalidated_witness:
  "(\<exists>dd. DD_init (Some ''localhost'') (Some 8080) (Some 0) None [] = (Inr dd, [])
      \<and> DD_proto dd = 0 \<and> DD_ddurl dd = ''http://localhost:8080'')
   \<and> (\<exists>dd. DD_init (Some ''localhost'') (Some 8080) (Some 2) None [] = (Inr dd, [])
      \<and> DD_proto dd = 2 \<and> DD_ddurl dd = ''https://localhost:8080'')
   \<and> (\<exists>dd. DD_init (Some ''localhost'') (Some 8080) (Some (- 1)) None [] = (Inr dd, [])
      \<and> DD_proto dd = - 1 \<and> DD_ddurl dd = ''https://localhost:8080'')"
  using init_proto_unvalidated [where apiversion = None and host = "Some ''localhost''"
      and port = "Some 8080" and proto = "Some 0" and w = "[]"]
    init_proto_unvalidated [where apiversion = None and host = "Some ''localhost''"
      and port = "Some 8080" and proto = "Some 2" and w = "[]"]
    init_proto_unvalidated [where apiversion = None and host = "Some ''localhost''"
      and port = "Some 8080" and proto = "Some (- 1)" and w = "[]"]
  by (simp add: str_int_8080)

section \<open>The return format\<close>

text \<open>
  C4. \<open>set_return_format f\<close> returns normally exactly when \<open>f\<close> is one of
  \<open>RETURN_JSON\<close> (0), \<open>RETURN_TEXT\<close> (1) and \<open>RETURN_NONE\<close> (2), and then stores
  \<open>f\<close>; for every other value it raises AssertionError and leaves the client as it was.
  In both cases the list of issued requests is unchanged: the method makes no network call.
  (The \<^verbatim>\<open>assert\<close> statement is taken as executed, as it is unless the interpreter
  runs with optimisation.)
\<close>

theorem set_return_format_accepts:
  "(fst (set_return_format self f w) = Inr PNone \<longleftrightarrow> f = 0 \<or> f = 1 \<or> f = 2)
   \<and> (f = 0 \<or> f = 1 \<or> f = 2 \<longrightarrow>
        set_return_format self f w = (Inr PNone, self\<lparr>DD_returntype := f\<rparr>, w))
   \<and> (\<not> (f = 0 \<or> f = 1 \<or> f = 2) \<longrightarrow>
        set_return_format self f w = (Inl AssertionError, self, w))
   \<and> RETURN_JSON = 0 \<and> RETURN_TEXT = 1 \<and> RETURN_NONE = 2"
  by (simp add: set_return_format_def RETURN_JSON_def RETURN_TEXT_def RETURN_NONE_def)

theorem set_return_format_accepts_witness:
  "set_return_format default_dd 1 [] = (Inr PNone, default_dd\<lparr>DD_returntype := 1\<rparr>, [])
   \<and> \<not> (3 = (0::int) \<or> 3 = (1::int) \<or> 3 = (2::int))
   \<and> set_return_format default_dd 3 [] = (Inl AssertionError, default_dd, [])"
  using set_return_format_accepts [where self = default_dd and f = 1 and w = "[]"]
    set_return_format_accepts [where self = default_dd and f = 3 and w = "[]"]
  by simp

text \<open>
  C9. The return type of a client is always one of \<open>RETURN_JSON\<close> (0),
  \<open>RETURN_TEXT\<close> (1), \<open>RETURN_NONE\<close> (2): the constructor sets \<open>RETURN_JSON\<close>, and
  the property survives every sequence of method calls, whatever the server answers and
  whichever calls raise. \<open>set_return_format\<close> stores its argument when the argument is
  one of the three and leaves the client unchanged when it raises; no other method
  changes the client.
\<close>

theorem returntype_invariant:
  "(DD_init host port proto apiversion w0 = (Inr self0, w1) \<longrightarrow>
      DD_returntype self0 = RETURN_JSON
      \<and> DD_returntype (fst (run e cs self0 w1)) \<in> {RETURN_JSON, RETURN_TEXT, RETURN_NONE})
   \<and> (RETURN_JSON = 0 \<and> RETURN_TEXT = 1 \<and> RETURN_NONE = 2)
   \<and> (f \<in> {RETURN_JSON, RETURN_TEXT, RETURN_NONE} \<longrightarrow>
        fst (snd (set_return_format self f w)) = self\<lparr>DD_returntype := f\<rparr>)
   \<and> (f \<notin> {RETURN_JSON, RETURN_TEXT, RETURN_NONE} \<longrightarrow>
        fst (set_return_format self f w) = Inl AssertionError
        \<and> fst (snd (set_return_format self f w)) = self)
   \<and> ((\<forall>g. c \<noteq> Set_return_format g) \<longrightarrow> fst (snd (invoke e c self w)) = self)"
proof -
  have init: "DD_returntype self0 = RETURN_JSON
      \<and> DD_returntype (fst (run e cs self0 w1)) \<in> {RETURN_JSON, RETURN_TEXT, RETURN_NONE}"
    if "DD_init host port proto apiversion w0 = (Inr self0, w1)"
  proof -
    from that have j: "DD_returntype self0 = RETURN_JSON" by (rule DD_init_Inr(2))
    then have "DD_returntype self0 \<in> {RETURN_JSON, RETURN_TEXT, RETURN_NONE}" by simp
    then have "DD_returntype (fst (run e cs self0 w1)) \<in> {RETURN_JSON, RETURN_TEXT, RETURN_NONE}"
      by (rule run_returntype)
    with j show ?thesis by blast
  qed
  have vals: "RETURN_JSON = 0 \<and> RETURN_TEXT = 1 \<and> RETURN_NONE = 2"
    by (simp add: RETURN_JSON_def RETURN_TEXT_def RETURN_NONE_def)
  have setf: "(f \<in> {RETURN_JSON, RETURN_TEXT, RETURN_NONE} \<longrightarrow>
        fst (snd (set_return_format self f w)) = self\<lparr>DD_returntype := f\<rparr>)
   \<and> (f \<notin> {RETURN_JSON, RETURN_TEXT, RETURN_NONE} \<longrightarrow>
        fst (set_return_format self f w) = Inl AssertionError
        \<and> fst (snd (set_return_format self f w)) = self)"
    by (auto simp: set_return_format_def)
  have other: "(\<forall>g. c \<noteq> Set_return_format g) \<longrightarrow> fst (snd (invoke e c self w)) = self"
    by (simp add: invoke_other_keeps_self)
  from init vals setf other show ?thesis by blast
qed

theorem returntype_invariant_witness:
  "DD_init None None None None [] = (Inr default_dd, [])
   \<and> DD_returntype
        (fst (run (mock_server 200 ''{}'')
               [Set_return_format 1, Info, Set_return_format 7, Delete_train ''digits'' None]
               default_dd [])) = 1
   \<and> (7::int) \<notin> {RETURN_JSON, RETURN_TEXT, RETURN_NONE}
   \<and> fst (snd (set_return_format default_dd 7 [])) = default_dd
   \<and> fst (snd (invoke (mock_server 200 ''{}'') Info default_dd [])) = default_dd"
  using returntype_invariant [where host = None and port = None and proto = None
      and apiversion = None and ?w0.0 = "[]" and ?self0.0 = default_dd and ?w1.0 = "[]"
      and e = "mock_server 200 ''{}''"
      and cs = "[Set_return_format 1, Info, Set_return_format 7, Delete_train ''digits'' None]"
      and f = 7 and self = default_dd and w = "[]" and c = Info]
  by (simp add: DD_init_default set_return_format_def keep_def
      RETURN_JSON_def RETURN_TEXT_def RETURN_NONE_def)

section \<open>HTTP error statuses\<close>

text \<open>
  C5, as stated, fails for a status that is neither a success (200..299) nor an error
  (400..599): the server answers \<^verbatim>\<open>GET /info\<close> with 304 and the body \<^verbatim>\<open>{}\<close>, and
  \<open>get\<close> on the default client returns the decoded body instead of raising.
\<close>

theorem verbs_raise_http_error_counterexample:
  "\<not> (network (mock_server 304 ''{}'') [] (sent GET (DD_ddurl default_dd @ ''/info'') PNone)
         = Inr \<lparr>status_code = 304, body_text = ''{}''\<rparr>
       \<and> \<not> (200 \<le> status_code \<lparr>status_code = 304, body_text = ''{}''\<rparr>
            \<and> status_code \<lparr>status_code = 304, body_text = ''{}''\<rparr> < 300)
      \<longrightarrow> fst (get (mock_server 304 ''{}'') default_dd ''/info'' None [])
            = Inl (HTTPError \<lparr>status_code = 304, body_text = ''{}''\<rparr>))"
  by (simp add: get_eq arg_or_def mock_network mock_loads raise_for_status_def return_data_def
      json_def default_dd_def RETURN_JSON_def)

text \<open>
  C5, amended. For each of \<open>get\<close>, \<open>put\<close>, \<open>post\<close> and \<open>delete\<close>, a response
  whose status is a client or server error (400..599, so 500 among them) makes the method
  raise HTTPError carrying that response, and with it the status code, after the one
  request has been issued; no formatted value is returned. A response with any other
  status is formatted by \<open>return_data\<close> and returned.
\<close>

theorem verbs_raise_http_error:
  "(network e w (sent v (DD_ddurl self @ path) params) = Inr r
     \<and> 400 \<le> status_code r \<and> status_code r < 600
    \<longrightarrow> verb_call e self v path params w
          = (Inl (HTTPError r), w @ [sent v (DD_ddurl self @ path) params]))
   \<and> (network e w (sent v (DD_ddurl self @ path) params) = Inr r \<and> status_code r = 500
    \<longrightarrow> fst (verb_call e self v path params w) = Inl (HTTPError r))
   \<and> (network e w (sent GET (DD_ddurl self @ path) PNone) = Inr r
     \<and> 400 \<le> status_code r \<and> status_code r < 600
    \<longrightarrow> fst (get e self path None w) = Inl (HTTPError r))
   \<and> (network e w (sent v (DD_ddurl self @ path) params) = Inr r
     \<and> \<not> (400 \<le> status_code r \<and> status_code r < 600)
    \<longrightarrow> fst (verb_call e self v path params w) = return_data e self r)"
  by (cases v) (simp_all add: verb_eqs arg_or_def raise_for_status_def)

theorem verbs_raise_http_error_witness:
  "network (mock_server 500 ''oops'') [] (sent DELETE (DD_ddurl default_dd @ ''/train'') PNone)
     = Inr \<lparr>status_code = 500, body_text = ''oops''\<rparr>
   \<and> delete (mock_server 500 ''oops'') default_dd ''/train'' PNone []
     = (Inl (HTTPError \<lparr>status_code = 500, body_text = ''oops''\<rparr>),
        [sent DELETE ''http://localhost:8080/train'' PNone])"
  using verbs_raise_http_error [where e = "mock_server 500 ''oops''" and w = "[]" and v = DELETE
      and self = default_dd and path = "''/train''" and params = PNone
      and r = "\<lparr>status_code = 500, body_text = ''oops''\<rparr>"]
  by (simp add: mock_network) (simp add: default_dd_def)

section \<open>Resource methods: the requests they build\<close>





text \<open>
  The map that \<open>post_train\<close> builds, and the one request it makes: the map is handed
  to \<open>post\<close>, which passes it on as \<^verbatim>\<open>params=\<close>.
\<close>

lemma post_train_params:
  "DD_init host port proto apiversion w0 = (Inr self, w1) \<Longrightarrow>
     snd (post_train e self sname data parameters_input parameters_mllib parameters_output
            async w)
       = w @ [\<lparr>rq_verb = POST, rq_url = DD_ddurl self @ ''/train'',
               rq_params =
                 PDict [(''service'', PStr sname),
                        (''async'', case async of None \<Rightarrow> PBool True | Some a \<Rightarrow> a),
                        (''parameters'', PDict [(''input'', parameters_input),
                                                (''mllib'', parameters_mllib),
                                                (''output'', parameters_output)]),
                        (''data'', data)],
               rq_data = PNone, rq_json = PNone, rq_timeout = DD_TIMEOUT\<rparr>]"
  by (auto simp: post_train_def post_eq arg_or_def Let_def DD_TIMEOUT_def
      split: option.splits dest: DD_init_urls(3))

text \<open>
  C8. The claim, that \<open>post_train\<close> issues a POST on the train path whose payload is
  exactly the map of \<^verbatim>\<open>service\<close>, \<^verbatim>\<open>async\<close>, \<^verbatim>\<open>parameters\<close> and
  \<^verbatim>\<open>data\<close>, does not hold of the code. \<open>post_train\<close> builds that map, with
  \<^verbatim>\<open>async\<close> True when the flag is left out, but the POST that \<open>post\<close> issues has
  no payload: the map is its URL query parameters, and \<^verbatim>\<open>data=\<close> and
  \<^verbatim>\<open>json=\<close> are not given. On the client that \<^verbatim>\<open>DD()\<close> constructs,
  \<^verbatim>\<open>post_train("digits", ["train.svm"], {}, {}, {})\<close> issues the request below.
  This is the defect of \<open>post\<close> described under C2.
\<close>

theorem post_train_sends_no_body:
  "snd (post_train (mock_server 200 ''{}'') default_dd ''digits'' (PList [PStr ''train.svm''])
          (PDict []) (PDict []) (PDict []) None [])
     = [\<lparr>rq_verb = POST, rq_url = ''http://localhost:8080/train'',
         rq_params = PDict [(''service'', PStr ''digits''),
                            (''async'', PBool True),
                            (''parameters'', PDict [(''input'', PDict []),
                                                    (''mllib'', PDict []),
                                                    (''output'', PDict [])]),
                            (''data'', PList [PStr ''train.svm''])],
         rq_data = PNone, rq_json = PNone, rq_timeout = 86400\<rparr>]"
  by (simp add: post_train_def post_eq arg_or_def getitem_def default_dd_def Let_def)

end
